theory Spec2Isabelle
  imports Main "HOL-Library.Word" "HOL-Library.Sublist"
begin

section \<open>The exoscale driver (drivers/exoscale/exoscale.go)\<close>

text \<open>
  The driver translates lifecycle calls into requests to the cloud API client and into
  operations on the local file system. Both are outside the program, so the model makes
  them explicit: every request and every file operation is an \<open>event\<close> appended to a
  trace, and its result is read from an oracle of the environment, which sees the trace
  of everything issued before. Theorems quantify over the environment, so they hold for
  every behaviour of the provider and of the file system.

  Strings are byte lists, as Go strings are. The pattern of the template names and the
  replacement of spaces work on single bytes below 128, so they are the same on the bytes
  of a UTF-8 text as on its runes.
\<close>

subsection \<open>Strings\<close>

definition to_lower_char :: "char \<Rightarrow> char" where
  "to_lower_char c =
     (case map_of (zip ''ABCDEFGHIJKLMNOPQRSTUVWXYZ'' ''abcdefghijklmnopqrstuvwxyz'') c of
        Some l \<Rightarrow> l
      | None \<Rightarrow> c)"

text \<open>
  \<^verbatim>\<open>strings.ToLower\<close>. The library lowers a text whose bytes are all below
  \<^verbatim>\<open>utf8.RuneSelf\<close> (128) byte by byte, \<open>A\<close> to \<open>Z\<close> only. Any other text goes through
  \<^verbatim>\<open>Map(unicode.ToLower, s)\<close>, which decodes runes and consults the Unicode case tables:
  that function is the parameter \<open>lower\<close>, so nothing is assumed about it.
\<close>

definition isASCII :: "string \<Rightarrow> bool" where
  "isASCII s = list_all (\<lambda>c. of_char c < (128 :: nat)) s"

definition ToLower :: "(string \<Rightarrow> string) \<Rightarrow> string \<Rightarrow> string" where
  "ToLower lower s = (if isASCII s then map to_lower_char s else lower s)"

text \<open>\<^verbatim>\<open>strings.HasPrefix(s, prefix)\<close>\<close>

definition HasPrefix :: "string \<Rightarrow> string \<Rightarrow> bool" where
  "HasPrefix s p = prefix p s"

text \<open>\<^verbatim>\<open>strings.Contains(s, substr)\<close>\<close>

fun Contains :: "string \<Rightarrow> string \<Rightarrow> bool" where
  "Contains [] substr = (substr = [])"
| "Contains (c # cs) substr = (HasPrefix (c # cs) substr \<or> Contains cs substr)"

text \<open>\<^verbatim>\<open>strings.Replace(s, " ", "-", -1)\<close>\<close>

definition spaces_to_dashes :: "string \<Rightarrow> string" where
  "spaces_to_dashes s = map (\<lambda>c. if c = CHR '' '' then CHR ''-'' else c) s"

text \<open>\<^verbatim>\<open>net.JoinHostPort\<close>: a host with a colon is taken for an IPv6 literal and bracketed.\<close>

definition JoinHostPort :: "string \<Rightarrow> string \<Rightarrow> string" where
  "JoinHostPort host port =
     (if CHR '':'' \<in> set host then ''['' @ host @ '']:'' @ port else host @ '':'' @ port)"

subsection \<open>Data\<close>

type_synonym UUID = string

text \<open>
  Go errors. \<open>ErrorResponse\<close> is \<^verbatim>\<open>*egoscale.ErrorResponse\<close>, the class the client
  returns for a resource that does not exist; \<open>ClientFailure\<close> is any other error of the
  client, \<open>IOFailure\<close> one of the file system or of the SSH wait. The other constructors
  are the errors the driver builds itself, one for each \<^verbatim>\<open>fmt.Errorf\<close>. \<open>Panic\<close> is a
  nil dereference: the call does not return.
\<close>

datatype error =
    ErrorResponse string
  | ClientFailure string
  | IOFailure string
  | ZoneDoesNotExist string
  | UnableToFindImage string
  | UnableToFindProfile string
  | SSHKeyPairCreationFailed error
  | CannotCreateFolder error
  | PrivateKeyNotWritten error
  | CannotReadPublicKey error
  | UnableToCopySSHFile error
  | UnableToSetPermissions error
  | ErrHostIsNotRunning
  | Panic

text \<open>The type assertion \<^verbatim>\<open>errGet.(*egoscale.ErrorResponse)\<close>.\<close>

fun is_ErrorResponse :: "error \<Rightarrow> bool" where
  "is_ErrorResponse (ErrorResponse _) = True"
| "is_ErrorResponse _ = False"

text \<open>
  Modelled from the spec: the enum \<^verbatim>\<open>state.State\<close> is declared in libmachine/state,
  which is not under src/. The spec lists HostState as Starting, Running, Stopped, Paused,
  Error and Unknown/None; \<open>state_None\<close> is \<^verbatim>\<open>state.None\<close>.
\<close>

datatype State = state_None | Running | Paused | Stopped | Starting | Error

record BaseDriver =
  IPAddress :: string
  MachineName :: string
  SSHUser :: string
  SSHKeyPath :: string
  StorePath :: string

record Driver = BaseDriver +
  URL :: string
  APIKey :: string
  APISecretKey :: string
  InstanceProfile :: string
  DiskSize :: "64 word"
  Image :: string
  SecurityGroups :: "string list"
  AffinityGroups :: "string list"
  AvailabilityZone :: string
  SSHKey :: string
  KeyPair :: string
  Password :: string
  PublicKey :: string
  UserDataFile :: string
  UserData :: string
  ID :: "UUID option"

record Zone =
  Zone_ID :: "UUID option"
  Zone_Name :: string

record Template =
  Template_ID :: "UUID option"
  Template_Name :: string
  Template_Size :: "64 word"
  Template_Details :: "string \<rightharpoonup> string"
  Template_IsFeatured :: bool
  Template_ZoneID :: "UUID option"

record ServiceOffering =
  ServiceOffering_ID :: "UUID option"
  ServiceOffering_Name :: string

record SecurityGroup =
  SecurityGroup_ID :: "UUID option"
  SecurityGroup_Name :: string

record AffinityGroup =
  AffinityGroup_ID :: "UUID option"
  AffinityGroup_Name :: string

record SSHKeyPair =
  SSHKeyPair_Name :: string
  SSHKeyPair_PrivateKey :: string

text \<open>
  \<open>VirtualMachine_IP\<close> is what \<^verbatim>\<open>vm.IP()\<close> returns, already printed: \<open>None\<close> for nil.
\<close>

record VirtualMachine =
  VirtualMachine_ID :: "UUID option"
  VirtualMachine_State :: string
  VirtualMachine_IP :: "string option"
  VirtualMachine_PasswordEnabled :: bool
  VirtualMachine_Password :: string

text \<open>
  An ingress rule request. \<open>UserSecurityGroupList\<close> holds the groups whose
  \<^verbatim>\<open>UserSecurityGroup()\<close> the rule names; fields the source leaves out have Go's zero value.
\<close>

record AuthorizeSecurityGroupIngress =
  SecurityGroupID :: "UUID option"
  Description :: string
  CIDRList :: "string list"
  Protocol :: string
  StartPort :: nat
  EndPort :: nat
  IcmpType :: nat
  IcmpCode :: nat
  UserSecurityGroupList :: "SecurityGroup list"

record DeployVirtualMachine =
  Deploy_Details :: "(string \<times> string) list"
  Deploy_TemplateID :: "UUID option"
  Deploy_ServiceOfferingID :: "UUID option"
  Deploy_UserData :: string
  Deploy_ZoneID :: "UUID option"
  Deploy_Name :: string
  Deploy_KeyPair :: string
  Deploy_DisplayName :: string
  Deploy_RootDiskSize :: "64 word"
  Deploy_SecurityGroupIDs :: "UUID list"
  Deploy_AffinityGroupIDs :: "UUID list"

subsection \<open>Effects\<close>

text \<open>
  One event for each request to the provider and each operation on the local system, with
  the arguments the source passes. File modes are the numbers the source writes in octal:
  0750 is 488 and 0600 is 384.
\<close>

datatype event =
    ListZones string
  | ListTemplates bool "UUID option"
  | ListServiceOfferings string
  | GetSecurityGroup string
  | CreateSecurityGroup string string
  | AuthorizeIngress AuthorizeSecurityGroupIngress
  | GetAffinityGroup string
  | CreateAffinityGroup string string string
  | CreateSSHKeyPair string
  | DeployVM DeployVirtualMachine
  | DeleteSSHKeyPair string
  | DeleteVirtualMachine UUID
  | GetVirtualMachine "UUID option"
  | ReadFile string
  | MkdirAll string nat
  | WriteFile string string nat
  | CopyFile string string
  | Chmod string nat
  | UserCurrent
  | FilepathAbs string
  | WaitForSSH

text \<open>
  The environment: the answers of the egoscale client, of the Go library and of the parts
  of libmachine the driver calls (\<^verbatim>\<open>GetSSHKeyPath\<close>, \<^verbatim>\<open>GetIP\<close>, \<^verbatim>\<open>WaitForSSH\<close>,
  \<^verbatim>\<open>mcnutils.CopyFile\<close>), none of which is under src/. \<open>unicode_lower\<close> is the
  library's lowercasing of a text that is not ASCII. The first argument of an
  effectful oracle is the trace before the call. \<open>read_file\<close> returns data and error, as
  \<^verbatim>\<open>ioutil.ReadFile\<close> does; \<open>user_current\<close> returns the home directory of the current
  user, or \<open>None\<close> when \<^verbatim>\<open>user.Current\<close> fails and returns nil.
\<close>

record env =
  list_zones :: "event list \<Rightarrow> string \<Rightarrow> error + Zone list"
  list_templates :: "event list \<Rightarrow> bool \<Rightarrow> UUID option \<Rightarrow> error + Template list"
  list_service_offerings :: "event list \<Rightarrow> string \<Rightarrow> error + ServiceOffering list"
  get_security_group :: "event list \<Rightarrow> string \<Rightarrow> error + SecurityGroup"
  create_security_group :: "event list \<Rightarrow> string \<Rightarrow> string \<Rightarrow> error + SecurityGroup"
  authorize_ingress :: "event list \<Rightarrow> AuthorizeSecurityGroupIngress \<Rightarrow> error option"
  get_affinity_group :: "event list \<Rightarrow> string \<Rightarrow> error + AffinityGroup"
  create_affinity_group :: "event list \<Rightarrow> string \<Rightarrow> string \<Rightarrow> string \<Rightarrow> error + AffinityGroup"
  create_ssh_key_pair :: "event list \<Rightarrow> string \<Rightarrow> error + SSHKeyPair"
  deploy_virtual_machine :: "event list \<Rightarrow> DeployVirtualMachine \<Rightarrow> error + VirtualMachine"
  delete_ssh_key_pair :: "event list \<Rightarrow> string \<Rightarrow> error option"
  delete_virtual_machine :: "event list \<Rightarrow> UUID \<Rightarrow> error option"
  get_virtual_machine :: "event list \<Rightarrow> UUID option \<Rightarrow> error + VirtualMachine"
  read_file :: "event list \<Rightarrow> string \<Rightarrow> string \<times> error option"
  mkdir_all :: "event list \<Rightarrow> string \<Rightarrow> nat \<Rightarrow> error option"
  write_file :: "event list \<Rightarrow> string \<Rightarrow> string \<Rightarrow> nat \<Rightarrow> error option"
  copy_file :: "event list \<Rightarrow> string \<Rightarrow> string \<Rightarrow> error option"
  chmod :: "event list \<Rightarrow> string \<Rightarrow> nat \<Rightarrow> error option"
  user_current :: "event list \<Rightarrow> string option"
  filepath_abs :: "event list \<Rightarrow> string \<Rightarrow> error + string"
  wait_for_ssh :: "event list \<Rightarrow> Driver \<Rightarrow> error option"
  filepath_join :: "string \<Rightarrow> string \<Rightarrow> string"
  filepath_dir :: "string \<Rightarrow> string"
  base64_encode :: "string \<Rightarrow> string"
  unicode_lower :: "string \<Rightarrow> string"
  GetSSHKeyPath :: "Driver \<Rightarrow> string"
  GetIP :: "Driver \<Rightarrow> string \<times> error option"

text \<open>The driver the method is called on, mutated in place, and the trace so far.\<close>

record world =
  drv :: Driver
  trace :: "event list"

text \<open>
  A piece of a method body: it either returns from the method with a value of the
  method's return type (\<open>Inl\<close>, Go's \<^verbatim>\<open>return\<close>) or goes on with a local value (\<open>Inr\<close>).
\<close>

type_synonym ('r, 'a) prog = "world \<Rightarrow> ('r + 'a) \<times> world"

definition continue :: "'a \<Rightarrow> ('r, 'a) prog" where
  "continue x = (\<lambda>s. (Inr x, s))"

definition return :: "'r \<Rightarrow> ('r, 'a) prog" where
  "return r = (\<lambda>s. (Inl r, s))"

definition andThen :: "('r, 'a) prog \<Rightarrow> ('a \<Rightarrow> ('r, 'b) prog) \<Rightarrow> ('r, 'b) prog" where
  "andThen m f = (\<lambda>s. case m s of (Inl r, s') \<Rightarrow> (Inl r, s') | (Inr a, s') \<Rightarrow> f a s')"

text \<open>Issue a request: read the answer at the trace so far, then record the event.\<close>

definition request :: "event \<Rightarrow> (event list \<Rightarrow> 'a) \<Rightarrow> ('r, 'a) prog" where
  "request ev oracle = (\<lambda>s. (Inr (oracle (trace s)), s\<lparr>trace := trace s @ [ev]\<rparr>))"

definition get_driver :: "('r, Driver) prog" where
  "get_driver = (\<lambda>s. (Inr (drv s), s))"

definition modify :: "(Driver \<Rightarrow> Driver) \<Rightarrow> ('r, unit) prog" where
  "modify f = (\<lambda>s. (Inr (), s\<lparr>drv := f (drv s)\<rparr>))"

text \<open>A whole method: the value it returns and the world it leaves.\<close>

definition run :: "('r, 'r) prog \<Rightarrow> world \<Rightarrow> 'r \<times> world" where
  "run body s = (case body s of (Inl r, s') \<Rightarrow> (r, s') | (Inr r, s') \<Rightarrow> (r, s'))"

text \<open>Call another method of the driver and go on with what it returned.\<close>

definition call :: "(world \<Rightarrow> 'a \<times> world) \<Rightarrow> ('r, 'a) prog" where
  "call f = (\<lambda>s. case f s of (a, s') \<Rightarrow> (Inr a, s'))"

subsection \<open>GetSSHUsername\<close>

definition defaultSSHUser :: string where
  "defaultSSHUser = ''root''"

definition GetSSHUsername :: "env \<Rightarrow> Driver \<Rightarrow> string" where
  "GetSSHUsername env d =
     (if SSHUser d = [] then
        (let name = ToLower (unicode_lower env) (Image d) in
         if Contains name ''ubuntu'' then ''ubuntu''
         else if Contains name ''centos'' then ''centos''
         else if Contains name ''redhat'' then ''cloud-user''
         else if Contains name ''fedora'' then ''fedora''
         else if Contains name ''coreos'' then ''core''
         else if Contains name ''debian'' then ''debian''
         else defaultSSHUser)
      else SSHUser d)"

subsection \<open>GetState and GetURL\<close>

definition virtualMachine :: "env \<Rightarrow> world \<Rightarrow> (error + VirtualMachine) \<times> world" where
  "virtualMachine env =
     run (andThen get_driver (\<lambda>d.
          andThen (request (GetVirtualMachine (ID d)) (\<lambda>tr. get_virtual_machine env tr (ID d))) (\<lambda>r.
          return r)))"

definition GetState :: "env \<Rightarrow> world \<Rightarrow> (State \<times> error option) \<times> world" where
  "GetState env =
     run (andThen (call (virtualMachine env)) (\<lambda>r.
          case r of
            Inl err \<Rightarrow> return (Error, Some err)
          | Inr vm \<Rightarrow>
              (let st = VirtualMachine_State vm in
               if st = ''Starting'' then return (Starting, None)
               else if st = ''Running'' then return (Running, None)
               else if st = ''Stopping'' then return (Running, None)
               else if st = ''Stopped'' then return (Stopped, None)
               else if st = ''Destroyed'' then return (Stopped, None)
               else if st = ''Expunging'' then return (Stopped, None)
               else if st = ''Migrating'' then return (Paused, None)
               else if st = ''Error'' then return (Error, None)
               else if st = ''Unknown'' then return (Error, None)
               else if st = ''Shutdowned'' then return (Stopped, None)
               else return (state_None, None))))"

text \<open>
  Modelled from the spec: \<^verbatim>\<open>drivers.MustBeRunning\<close> is in libmachine/drivers, which is
  not under src/. The spec says the URL is only valid once the host is running: the check
  queries the state and fails unless the query succeeds and reports Running.
\<close>

definition MustBeRunning :: "env \<Rightarrow> world \<Rightarrow> error option \<times> world" where
  "MustBeRunning env =
     run (andThen (call (GetState env)) (\<lambda>(st, err).
          case err of
            Some e \<Rightarrow> return (Some e)
          | None \<Rightarrow> if st \<noteq> Running then return (Some ErrHostIsNotRunning) else return None))"

definition GetURL :: "env \<Rightarrow> world \<Rightarrow> (string \<times> error option) \<times> world" where
  "GetURL env =
     run (andThen (call (MustBeRunning env)) (\<lambda>err.
          case err of
            Some e \<Rightarrow> return ([], Some e)
          | None \<Rightarrow>
              andThen get_driver (\<lambda>d.
              case GetIP env d of
                (ip, Some e) \<Rightarrow> return ([], Some e)
              | (ip, None) \<Rightarrow> return (''tcp://'' @ JoinHostPort ip ''2376'', None))))"

subsection \<open>Remove\<close>

definition Remove :: "env \<Rightarrow> world \<Rightarrow> error option \<times> world" where
  "Remove env =
     run (andThen get_driver (\<lambda>d.
          andThen (if KeyPair d \<noteq> [] then
                     andThen (request (DeleteSSHKeyPair (KeyPair d))
                                (\<lambda>tr. delete_ssh_key_pair env tr (KeyPair d))) (\<lambda>err.
                     case err of Some e \<Rightarrow> return (Some e) | None \<Rightarrow> continue ())
                   else continue ()) (\<lambda>_.
          andThen (case ID d of
                     Some i \<Rightarrow>
                       andThen (request (DeleteVirtualMachine i)
                                  (\<lambda>tr. delete_virtual_machine env tr i)) (\<lambda>err.
                       case err of Some e \<Rightarrow> return (Some e) | None \<Rightarrow> continue ())
                   | None \<Rightarrow> continue ()) (\<lambda>_.
          return None))))"

subsection \<open>Create: the cloud-init payload\<close>

definition defaultAffinityGroupType :: string where
  "defaultAffinityGroupType = ''host anti-affinity''"

definition getCloudInit :: "env \<Rightarrow> world \<Rightarrow> (string \<times> error option) \<times> world" where
  "getCloudInit env =
     run (andThen get_driver (\<lambda>d.
          if UserDataFile d \<noteq> [] then
            andThen (request (ReadFile (UserDataFile d))
                       (\<lambda>tr. read_file env tr (UserDataFile d))) (\<lambda>(data, err).
            andThen (modify (\<lambda>d. d\<lparr>UserData := data\<rparr>)) (\<lambda>_.
            return (data, err)))
          else return (UserData d, None)))"

subsection \<open>Create: the default groups\<close>

definition cidrList :: "string list" where
  "cidrList = [''0.0.0.0/0'', ''::/0'']"

text \<open>The table \<^verbatim>\<open>requests\<close> of \<^verbatim>\<open>createDefaultSecurityGroup\<close>.\<close>

definition requests :: "SecurityGroup \<Rightarrow> AuthorizeSecurityGroupIngress list" where
  "requests sg =
     [\<lparr>SecurityGroupID = SecurityGroup_ID sg, Description = ''SSH'', CIDRList = cidrList,
       Protocol = ''TCP'', StartPort = 22, EndPort = 22, IcmpType = 0, IcmpCode = 0,
       UserSecurityGroupList = []\<rparr>,
      \<lparr>SecurityGroupID = SecurityGroup_ID sg, Description = ''Ping'', CIDRList = [''0.0.0.0/0''],
       Protocol = ''ICMP'', StartPort = 0, EndPort = 0, IcmpType = 8, IcmpCode = 0,
       UserSecurityGroupList = []\<rparr>,
      \<lparr>SecurityGroupID = SecurityGroup_ID sg, Description = ''Ping6'', CIDRList = [''::/0''],
       Protocol = ''ICMPv6'', StartPort = 0, EndPort = 0, IcmpType = 128, IcmpCode = 0,
       UserSecurityGroupList = []\<rparr>,
      \<lparr>SecurityGroupID = SecurityGroup_ID sg, Description = ''Docker'', CIDRList = cidrList,
       Protocol = ''TCP'', StartPort = 2376, EndPort = 2377, IcmpType = 0, IcmpCode = 0,
       UserSecurityGroupList = []\<rparr>,
      \<lparr>SecurityGroupID = SecurityGroup_ID sg, Description = ''Legacy Standalone Swarm'',
       CIDRList = cidrList, Protocol = ''TCP'', StartPort = 3376, EndPort = 3377, IcmpType = 0,
       IcmpCode = 0, UserSecurityGroupList = []\<rparr>,
      \<lparr>SecurityGroupID = SecurityGroup_ID sg, Description = ''Communication among nodes'',
       CIDRList = [], Protocol = ''TCP'', StartPort = 7946, EndPort = 7946, IcmpType = 0,
       IcmpCode = 0, UserSecurityGroupList = [sg]\<rparr>,
      \<lparr>SecurityGroupID = SecurityGroup_ID sg, Description = ''Communication among nodes'',
       CIDRList = [], Protocol = ''UDP'', StartPort = 7946, EndPort = 7946, IcmpType = 0,
       IcmpCode = 0, UserSecurityGroupList = [sg]\<rparr>,
      \<lparr>SecurityGroupID = SecurityGroup_ID sg, Description = ''Overlay network traffic'',
       CIDRList = [], Protocol = ''UDP'', StartPort = 4789, EndPort = 4789, IcmpType = 0,
       IcmpCode = 0, UserSecurityGroupList = [sg]\<rparr>]"

text \<open>The loop \<^verbatim>\<open>for _, req := range requests\<close>.\<close>

fun authorize_requests ::
  "env \<Rightarrow> AuthorizeSecurityGroupIngress list \<Rightarrow> (error + SecurityGroup, unit) prog" where
  "authorize_requests env [] = continue ()"
| "authorize_requests env (req # reqs) =
     andThen (request (AuthorizeIngress req) (\<lambda>tr. authorize_ingress env tr req)) (\<lambda>err.
     case err of
       Some e \<Rightarrow> return (Inl e)
     | None \<Rightarrow> authorize_requests env reqs)"

definition createDefaultSecurityGroup ::
  "env \<Rightarrow> string \<Rightarrow> world \<Rightarrow> (error + SecurityGroup) \<times> world" where
  "createDefaultSecurityGroup env groupName =
     run (andThen (request (CreateSecurityGroup groupName ''created by docker-machine'')
                     (\<lambda>tr. create_security_group env tr groupName ''created by docker-machine'')) (\<lambda>resp.
          case resp of
            Inl err \<Rightarrow> return (Inl err)
          | Inr sg \<Rightarrow>
              andThen (authorize_requests env (requests sg)) (\<lambda>_.
              return (Inr sg))))"

definition createDefaultAffinityGroup ::
  "env \<Rightarrow> string \<Rightarrow> world \<Rightarrow> (error + AffinityGroup) \<times> world" where
  "createDefaultAffinityGroup env groupName =
     run (andThen (request (CreateAffinityGroup groupName defaultAffinityGroupType
                              ''created by docker-machine'')
                     (\<lambda>tr. create_affinity_group env tr groupName defaultAffinityGroupType
                              ''created by docker-machine'')) (\<lambda>resp.
          case resp of
            Inl err \<Rightarrow> return (Inl err)
          | Inr affinityGroup \<Rightarrow> return (Inr affinityGroup)))"

subsection \<open>Create: the template pattern\<close>

text \<open>
  The regular expression \<^verbatim>\<open>^Linux (?P<name>.+?) (?P<version>[0-9.]+)\b\<close>, as Go's
  leftmost-first matching runs it. \<open>\w\<close> is \<open>[0-9A-Za-z_]\<close>, and \<open>\b\<close> holds between two
  positions when exactly one of them is a word character (the end of the text is not).
\<close>

definition is_word_char :: "char \<Rightarrow> bool" where
  "is_word_char c =
     (c \<in> set ''0123456789ABCDEFGHIJKLMNOPQRSTUVWXYZabcdefghijklmnopqrstuvwxyz_'')"

definition is_version_char :: "char \<Rightarrow> bool" where
  "is_version_char c = (c \<in> set ''0123456789.'')"

definition word_boundary :: "char \<Rightarrow> string \<Rightarrow> bool" where
  "word_boundary before rest =
     (is_word_char before \<noteq> (case rest of [] \<Rightarrow> False | c # _ \<Rightarrow> is_word_char c))"

text \<open>
  \<^verbatim>\<open>[0-9.]+\b\<close> at the head of the text: the greedy plus takes the longest run first and
  gives characters back one at a time until the boundary holds.
\<close>

definition match_version :: "string \<Rightarrow> string option" where
  "match_version s =
     (let digits = takeWhile is_version_char s
      in find (\<lambda>v. word_boundary (last v) (drop (length v) s))
              (map (\<lambda>n. take n digits) (rev [1..<Suc (length digits)])))"

text \<open>
  \<^verbatim>\<open>.+?\<close> followed by a space and the version: the lazy plus holds \<open>name\<close> already and
  takes one more character (any but a newline) only when the rest does not match here.
\<close>

fun match_name :: "string \<Rightarrow> string \<Rightarrow> (string \<times> string) option" where
  "match_name name [] = None"
| "match_name name (c # cs) =
     (case (if c = CHR '' '' then match_version cs else None) of
        Some version \<Rightarrow> Some (name, version)
      | None \<Rightarrow> if c = CHR 0x0A then None else match_name (name @ [c]) cs)"

text \<open>
  \<^verbatim>\<open>re.FindStringSubmatch\<close>: the two groups \<^verbatim>\<open>submatch[1]\<close> and \<^verbatim>\<open>submatch[2]\<close>, or
  \<open>None\<close> when the name does not match (the source tests \<^verbatim>\<open>len(submatch) > 0\<close>).
\<close>

definition FindStringSubmatch :: "string \<Rightarrow> (string \<times> string) option" where
  "FindStringSubmatch s =
     (if HasPrefix s ''Linux '' then
        (case drop 6 s of
           [] \<Rightarrow> None
         | c # cs \<Rightarrow> if c = CHR 0x0A then None else match_name [c] cs)
      else None)"

text \<open>The loop \<^verbatim>\<open>for _, t := range templates\<close>; \<open>template\<close> is the variable it assigns.\<close>

fun select_template :: "env \<Rightarrow> string \<Rightarrow> Template list \<Rightarrow> Template \<Rightarrow> Template" where
  "select_template env imageName [] template = template"
| "select_template env imageName (tpl # templates) template =
     (if signed_drop_bit 30 (Template_Size tpl) \<noteq> 10
      then select_template env imageName templates template
      else if imageName = ToLower (unicode_lower env) (Template_Name tpl) then tpl
      else (case FindStringSubmatch (Template_Name tpl) of
              Some (submatch1, submatch2) \<Rightarrow>
                (let name = spaces_to_dashes (ToLower (unicode_lower env) submatch1);
                     version = submatch2;
                     shortname = name @ ''-'' @ version
                 in if imageName = shortname then tpl
                    else select_template env imageName templates template)
            | None \<Rightarrow> select_template env imageName templates template))"



subsection \<open>Create\<close>

text \<open>
  The body of \<^verbatim>\<open>Create\<close>, cut at the source's own comments (zone, image, profile,
  security groups, affinity groups, SSH key pair, deployment). Each piece either returns
  from \<^verbatim>\<open>Create\<close> or hands its local variables on.
\<close>

definition resolve_zone :: "env \<Rightarrow> (error option, UUID option) prog" where
  "resolve_zone env =
     andThen get_driver (\<lambda>d.
     andThen (request (ListZones (AvailabilityZone d))
                (\<lambda>tr. list_zones env tr (AvailabilityZone d))) (\<lambda>r.
     case r of
       Inl err \<Rightarrow> return (Some err)
     | Inr zones \<Rightarrow>
         if length zones \<noteq> 1 then return (Some (ZoneDoesNotExist (AvailabilityZone d)))
         else continue (Zone_ID (zones ! 0))))"

definition resolve_image :: "env \<Rightarrow> UUID option \<Rightarrow> (error option, Template) prog" where
  "resolve_image env zone =
     andThen get_driver (\<lambda>d.
     let template = \<lparr>Template_ID = None, Template_Name = [], Template_Size = 0,
                     Template_Details = Map.empty, Template_IsFeatured = True,
                     Template_ZoneID = zone\<rparr>
     in andThen (request (ListTemplates True zone) (\<lambda>tr. list_templates env tr True zone)) (\<lambda>r.
        case r of
          Inl err \<Rightarrow> return (Some err)
        | Inr templates \<Rightarrow>
            (let imageName = ToLower (unicode_lower env) (Image d);
                 template = select_template env imageName templates template
             in if Template_ID template = None then return (Some (UnableToFindImage (Image d)))
                else andThen (case Template_Details template ''username'' of
                                Some name \<Rightarrow> modify (\<lambda>d. d\<lparr>SSHUser := name\<rparr>)
                              | None \<Rightarrow> continue ()) (\<lambda>_.
                     continue template))))"

definition resolve_profile :: "env \<Rightarrow> (error option, UUID option) prog" where
  "resolve_profile env =
     andThen get_driver (\<lambda>d.
     andThen (request (ListServiceOfferings (InstanceProfile d))
                (\<lambda>tr. list_service_offerings env tr (InstanceProfile d))) (\<lambda>r.
     case r of
       Inl err \<Rightarrow> return (Some err)
     | Inr profiles \<Rightarrow>
         if length profiles \<noteq> 1 then return (Some (UnableToFindProfile (InstanceProfile d)))
         else continue (ServiceOffering_ID (profiles ! 0))))"

text \<open>
  The loop over \<^verbatim>\<open>d.SecurityGroups\<close>; \<open>sgs\<close> is the slice it appends to. The source
  dereferences \<^verbatim>\<open>sg.ID\<close> unchecked, so a group without an ID is a panic.
\<close>

fun resolve_security_groups ::
  "env \<Rightarrow> string list \<Rightarrow> UUID list \<Rightarrow> (error option, UUID list) prog" where
  "resolve_security_groups env [] sgs = continue sgs"
| "resolve_security_groups env (groupName # groups) sgs =
     (if groupName = [] then resolve_security_groups env groups sgs
      else
        andThen (request (GetSecurityGroup groupName) (\<lambda>tr. get_security_group env tr groupName)) (\<lambda>errGet.
        andThen (case errGet of
                   Inr sg \<Rightarrow> continue (SecurityGroup_ID sg)
                 | Inl e \<Rightarrow>
                     if \<not> is_ErrorResponse e then return (Some e)
                     else
                       andThen (call (createDefaultSecurityGroup env groupName)) (\<lambda>created.
                       case created of
                         Inl errCreate \<Rightarrow> return (Some errCreate)
                       | Inr securityGroup \<Rightarrow> continue (SecurityGroup_ID securityGroup))) (\<lambda>sgID.
        case sgID of
          None \<Rightarrow> return (Some Panic)
        | Some u \<Rightarrow> resolve_security_groups env groups (sgs @ [u]))))"

text \<open>
  The loop over \<^verbatim>\<open>d.AffinityGroups\<close>. On a lookup error of another class the source
  writes \<^verbatim>\<open>return err\<close>, where \<^verbatim>\<open>err\<close> is the variable of \<^verbatim>\<open>Create\<close> itself and not
  \<^verbatim>\<open>errGet\<close>: the loop takes its value as the argument \<open>err\<close>.
\<close>

fun resolve_affinity_groups ::
  "env \<Rightarrow> error option \<Rightarrow> string list \<Rightarrow> UUID list \<Rightarrow> (error option, UUID list) prog" where
  "resolve_affinity_groups env err [] ags = continue ags"
| "resolve_affinity_groups env err (groupName # groups) ags =
     (if groupName = [] then resolve_affinity_groups env err groups ags
      else
        andThen (request (GetAffinityGroup groupName) (\<lambda>tr. get_affinity_group env tr groupName)) (\<lambda>errGet.
        andThen (case errGet of
                   Inr ag \<Rightarrow> continue (AffinityGroup_ID ag)
                 | Inl e \<Rightarrow>
                     if \<not> is_ErrorResponse e then return err
                     else
                       andThen (call (createDefaultAffinityGroup env groupName)) (\<lambda>created.
                       case created of
                         Inl errCreate \<Rightarrow> return (Some errCreate)
                       | Inr affinityGroup \<Rightarrow> continue (AffinityGroup_ID affinityGroup))) (\<lambda>agID.
        case agID of
          None \<Rightarrow> return (Some Panic)
        | Some u \<Rightarrow> resolve_affinity_groups env err groups (ags @ [u]))))"

definition sshAuthorizedKeys :: string where
  "sshAuthorizedKeys = [CHR 0x0A] @ ''ssh_authorized_keys:'' @ [CHR 0x0A] @ ''- ''"

text \<open>
  The SSH key pair: generated by the provider when no key path is configured, imported
  from the local file otherwise. It hands on the cloud-init payload.
\<close>

definition ssh_key_pair :: "env \<Rightarrow> string \<Rightarrow> (error option, string) prog" where
  "ssh_key_pair env cloudInit =
     andThen get_driver (\<lambda>d.
     if SSHKey d = [] then
       (let keyPairName = ''docker-machine-'' @ MachineName d
        in andThen (request (CreateSSHKeyPair keyPairName)
                      (\<lambda>tr. create_ssh_key_pair env tr keyPairName)) (\<lambda>resp.
           case resp of
             Inl errCreate \<Rightarrow> return (Some (SSHKeyPairCreationFailed errCreate))
           | Inr keyPair \<Rightarrow>
               andThen (request (MkdirAll (filepath_dir env (GetSSHKeyPath env d)) 488)
                          (\<lambda>tr. mkdir_all env tr (filepath_dir env (GetSSHKeyPath env d)) 488)) (\<lambda>errM.
               case errM of
                 Some e \<Rightarrow> return (Some (CannotCreateFolder e))
               | None \<Rightarrow>
                   andThen (request (WriteFile (GetSSHKeyPath env d) (SSHKeyPair_PrivateKey keyPair) 384)
                              (\<lambda>tr. write_file env tr (GetSSHKeyPath env d)
                                       (SSHKeyPair_PrivateKey keyPair) 384)) (\<lambda>errW.
                   case errW of
                     Some e \<Rightarrow> return (Some (PrivateKeyNotWritten e))
                   | None \<Rightarrow>
                       andThen (modify (\<lambda>d. d\<lparr>KeyPair := keyPairName\<rparr>)) (\<lambda>_.
                       continue cloudInit)))))
     else
       andThen (if HasPrefix (SSHKey d) ''~/'' then
                  andThen (request UserCurrent (user_current env)) (\<lambda>usr.
                  case usr of
                    None \<Rightarrow> return (Some Panic)
                  | Some homeDir \<Rightarrow> continue (filepath_join env homeDir (drop 2 (SSHKey d))))
                else
                  andThen (request (FilepathAbs (SSHKey d))
                             (\<lambda>tr. filepath_abs env tr (SSHKey d))) (\<lambda>r.
                  case r of
                    Inl errA \<Rightarrow> return (Some errA)
                  | Inr p \<Rightarrow> continue p)) (\<lambda>sshKey.
       andThen (request (ReadFile (sshKey @ ''.pub''))
                  (\<lambda>tr. read_file env tr (sshKey @ ''.pub''))) (\<lambda>(pubKey, errR).
       case errR of
         Some e \<Rightarrow> return (Some (CannotReadPublicKey e))
       | None \<Rightarrow>
           andThen (request (CopyFile sshKey (GetSSHKeyPath env d))
                      (\<lambda>tr. copy_file env tr sshKey (GetSSHKeyPath env d))) (\<lambda>errCopy.
           case errCopy of
             Some e \<Rightarrow> return (Some (UnableToCopySSHFile e))
           | None \<Rightarrow>
               andThen (request (Chmod (GetSSHKeyPath env d) 384)
                          (\<lambda>tr. chmod env tr (GetSSHKeyPath env d) 384)) (\<lambda>errChmod.
               case errChmod of
                 Some e \<Rightarrow> return (Some (UnableToSetPermissions e))
               | None \<Rightarrow> continue (cloudInit @ sshAuthorizedKeys @ pubKey))))))"

text \<open>The deployment request and what follows it, to the end of \<^verbatim>\<open>Create\<close>.\<close>

definition deploy ::
  "env \<Rightarrow> string \<Rightarrow> Template \<Rightarrow> UUID option \<Rightarrow> UUID option \<Rightarrow> UUID list \<Rightarrow> UUID list
   \<Rightarrow> (error option, error option) prog" where
  "deploy env cloudInit template zone profile sgs ags =
     andThen (modify (\<lambda>d. d\<lparr>UserData := cloudInit\<rparr>)) (\<lambda>_.
     andThen get_driver (\<lambda>d.
     let encodedUserData = base64_encode env (UserData d);
         req = \<lparr>Deploy_Details = [(''ip6'', ''true'')],
                Deploy_TemplateID = Template_ID template,
                Deploy_ServiceOfferingID = profile,
                Deploy_UserData = encodedUserData,
                Deploy_ZoneID = zone,
                Deploy_Name = MachineName d,
                Deploy_KeyPair = KeyPair d,
                Deploy_DisplayName = MachineName d,
                Deploy_RootDiskSize = DiskSize d,
                Deploy_SecurityGroupIDs = sgs,
                Deploy_AffinityGroupIDs = ags\<rparr>
     in andThen (request (DeployVM req) (\<lambda>tr. deploy_virtual_machine env tr req)) (\<lambda>resp.
        case resp of
          Inl err \<Rightarrow> return (Some err)
        | Inr vm \<Rightarrow>
            andThen (modify (\<lambda>d. case VirtualMachine_IP vm of
                                    Some ip \<Rightarrow> d\<lparr>IPAddress := ip\<rparr>
                                  | None \<Rightarrow> d)) (\<lambda>_.
            andThen (modify (\<lambda>d. d\<lparr>ID := VirtualMachine_ID vm\<rparr>)) (\<lambda>_.
            andThen (modify (\<lambda>d. if VirtualMachine_PasswordEnabled vm
                                  then d\<lparr>Password := VirtualMachine_Password vm\<rparr> else d)) (\<lambda>_.
            andThen get_driver (\<lambda>d.
            if KeyPair d \<noteq> [] then
              andThen (request WaitForSSH (\<lambda>tr. wait_for_ssh env tr d)) (\<lambda>err.
              case err of
                Some e \<Rightarrow> return (Some e)
              | None \<Rightarrow>
                  andThen (request (DeleteSSHKeyPair (KeyPair d))
                             (\<lambda>tr. delete_ssh_key_pair env tr (KeyPair d))) (\<lambda>err.
                  case err of
                    Some e \<Rightarrow> return (Some e)
                  | None \<Rightarrow>
                      andThen (modify (\<lambda>d. d\<lparr>KeyPair := []\<rparr>)) (\<lambda>_.
                      return None)))
            else return None)))))))"

text \<open>
  \<^verbatim>\<open>Create\<close>. The affinity loop gets \<open>None\<close> for \<^verbatim>\<open>err\<close>: the variable was last assigned
  by the profile lookup, and the check after it has let only nil through.
\<close>

definition Create :: "env \<Rightarrow> world \<Rightarrow> error option \<times> world" where
  "Create env =
     run (andThen (call (getCloudInit env)) (\<lambda>(cloudInit, err).
          case err of
            Some e \<Rightarrow> return (Some e)
          | None \<Rightarrow>
              andThen (resolve_zone env) (\<lambda>zone.
              andThen (resolve_image env zone) (\<lambda>template.
              andThen (resolve_profile env) (\<lambda>profile.
              andThen get_driver (\<lambda>d.
              andThen (resolve_security_groups env (SecurityGroups d) []) (\<lambda>sgs.
              andThen get_driver (\<lambda>d.
              andThen (resolve_affinity_groups env None (AffinityGroups d) []) (\<lambda>ags.
              andThen (ssh_key_pair env cloudInit) (\<lambda>cloudInit.
              deploy env cloudInit template zone profile sgs ags))))))))))"

subsection \<open>Concrete inputs\<close>

text \<open>A driver as \<^verbatim>\<open>NewDriver\<close> and the flags leave it, and a provider where every request succeeds.\<close>

definition demo_driver :: Driver where
  "demo_driver =
     \<lparr>IPAddress = [], MachineName = ''host1'', SSHUser = [], SSHKeyPath = [],
      StorePath = ''/store'', URL = ''https://api.exoscale.ch/compute'', APIKey = ''key'',
      APISecretKey = ''secret'', InstanceProfile = ''Small'', DiskSize = 50,
      Image = ''Linux Ubuntu 18.04 LTS 64-bit'', SecurityGroups = [''docker-machine''],
      AffinityGroups = [], AvailabilityZone = ''CH-DK-2'', SSHKey = [], KeyPair = [],
      Password = [], PublicKey = [], UserDataFile = [],
      UserData = ''#cloud-config'', ID = None\<rparr>"

definition demo_vm :: VirtualMachine where
  "demo_vm = \<lparr>VirtualMachine_ID = Some ''vm-1'', VirtualMachine_State = ''Running'',
      VirtualMachine_IP = Some ''203.0.113.7'', VirtualMachine_PasswordEnabled = False,
      VirtualMachine_Password = []\<rparr>"

definition demo_template :: Template where
  "demo_template =
     \<lparr>Template_ID = Some ''tpl-1'', Template_Name = ''Linux Ubuntu 18.04 LTS 64-bit'',
      Template_Size = 10737418240, Template_Details = Map.empty, Template_IsFeatured = True,
      Template_ZoneID = None\<rparr>"


definition demo_env :: env where
  "demo_env =
     \<lparr>list_zones = (\<lambda>tr name. Inr [\<lparr>Zone_ID = Some ''zone-1'', Zone_Name = name\<rparr>]),
      list_templates = (\<lambda>tr featured zone. Inr [demo_template\<lparr>Template_ZoneID := zone\<rparr>]),
      list_service_offerings = (\<lambda>tr name. Inr [\<lparr>ServiceOffering_ID = Some ''so-1'', ServiceOffering_Name = name\<rparr>]),
      get_security_group = (\<lambda>tr name. Inl (ErrorResponse ''not found'')),
      create_security_group = (\<lambda>tr name descr. Inr \<lparr>SecurityGroup_ID = Some (''sg-'' @ name), SecurityGroup_Name = name\<rparr>),
      authorize_ingress = (\<lambda>tr rule. None),
      get_affinity_group = (\<lambda>tr name. Inl (ErrorResponse ''not found'')),
      create_affinity_group = (\<lambda>tr name ty descr. Inr \<lparr>AffinityGroup_ID = Some (''ag-'' @ name), AffinityGroup_Name = name\<rparr>),
      create_ssh_key_pair = (\<lambda>tr name. Inr \<lparr>SSHKeyPair_Name = name, SSHKeyPair_PrivateKey = ''PRIVATE''\<rparr>),
      deploy_virtual_machine = (\<lambda>tr req. Inr demo_vm),
      delete_ssh_key_pair = (\<lambda>tr name. None),
      delete_virtual_machine = (\<lambda>tr i. None),
      get_virtual_machine = (\<lambda>tr i. Inr demo_vm),
      read_file = (\<lambda>tr path. (''ssh-rsa AAAA'', None)),
      mkdir_all = (\<lambda>tr path mode. None),
      write_file = (\<lambda>tr path data mode. None),
      copy_file = (\<lambda>tr src dst. None),
      chmod = (\<lambda>tr path mode. None),
      user_current = (\<lambda>tr. Some ''/home/me''),
      filepath_abs = (\<lambda>tr path. Inr (''/cwd/'' @ path)),
      wait_for_ssh = (\<lambda>tr d. None),
      filepath_join = (\<lambda>a b. a @ ''/'' @ b),
      filepath_dir = (\<lambda>p. ''/store/machines/host1''),
      base64_encode = (\<lambda>s. s),
      unicode_lower = (\<lambda>s. s),
      GetSSHKeyPath = (\<lambda>d. ''/store/machines/host1/id_rsa''),
      GetIP = (\<lambda>d. if IPAddress d = [] then ([], Some (IOFailure ''IP address is not set''))
                     else (IPAddress d, None))\<rparr>"

section \<open>Properties\<close>

lemmas prog_defs = continue_def return_def andThen_def request_def get_driver_def modify_def
  run_def call_def

text \<open>\<open>Contains\<close> is the substring test.\<close>

lemma Contains_iff: "Contains s sub \<longleftrightarrow> (\<exists>p q. s = p @ sub @ q)"
proof (induction s)
  case Nil
  then show ?case by (auto simp: HasPrefix_def)
next
  case (Cons c cs)
  show ?case
  proof
    assume "Contains (c # cs) sub"
    then consider "prefix sub (c # cs)" | "Contains cs sub" by (auto simp: HasPrefix_def)
    then show "\<exists>p q. c # cs = p @ sub @ q"
    proof cases
      case 1
      then obtain q where "c # cs = sub @ q" by (auto simp: prefix_def)
      then have "c # cs = [] @ sub @ q" by simp
      then show ?thesis by blast
    next
      case 2
      with Cons.IH obtain p q where "cs = p @ sub @ q" by blast
      then have "c # cs = (c # p) @ sub @ q" by simp
      then show ?thesis by blast
    qed
  next
    assume "\<exists>p q. c # cs = p @ sub @ q"
    then obtain p q where pq: "c # cs = p @ sub @ q" by blast
    show "Contains (c # cs) sub"
    proof (cases p)
      case Nil
      with pq have "prefix sub (c # cs)" by (simp add: prefix_def)
      then show ?thesis by (simp add: HasPrefix_def)
    next
      case (Cons a p')
      with pq have "cs = p' @ sub @ q" by simp
      with Cons.IH have "Contains cs sub" by blast
      then show ?thesis by simp
    qed
  qed
qed

text \<open>
  C10, as the claim states it: the image names \<open>Fedora CoreOS 31\<close> and
  \<open>Debian with Ubuntu tools\<close> contain coreos and debian once lowercased, and no SSH user
  is configured, but the user is not core and not debian. The name is tested for fedora
  before coreos and for ubuntu before debian, and the first test that holds decides.
\<close>

theorem GetSSHUsername_counterexample:
  "SSHUser demo_driver = []
   \<and> Contains (ToLower (unicode_lower demo_env) ''Fedora CoreOS 31'') ''coreos''
   \<and> GetSSHUsername demo_env (demo_driver\<lparr>Image := ''Fedora CoreOS 31''\<rparr>) = ''fedora''
   \<and> GetSSHUsername demo_env (demo_driver\<lparr>Image := ''Fedora CoreOS 31''\<rparr>) \<noteq> ''core''
   \<and> Contains (ToLower (unicode_lower demo_env) ''Debian with Ubuntu tools'') ''debian''
   \<and> GetSSHUsername demo_env (demo_driver\<lparr>Image := ''Debian with Ubuntu tools''\<rparr>) = ''ubuntu''
   \<and> GetSSHUsername demo_env (demo_driver\<lparr>Image := ''Debian with Ubuntu tools''\<rparr>) \<noteq> ''debian''"
  by (simp add: GetSSHUsername_def demo_driver_def demo_env_def ToLower_def isASCII_def
      to_lower_char_def HasPrefix_def)

text \<open>
  C10, amended. A configured SSH user is returned unchanged. With none configured, the
  lowercased image name is searched for ubuntu, centos, redhat, fedora, coreos and debian,
  in this order of priority; the first one it contains decides the user (ubuntu, centos,
  cloud-user, fedora, core, debian), whatever else the name contains, and a name that
  contains none of them gives root. The lowercased name is that of \<^verbatim>\<open>strings.ToLower\<close>,
  for every behaviour of the library on text that is not ASCII.
\<close>

theorem GetSSHUsername_cascade:
  "GetSSHUsername env d =
     (if SSHUser d \<noteq> [] then SSHUser d
      else case find (\<lambda>(k, u). Contains (ToLower (unicode_lower env) (Image d)) k)
                  [(''ubuntu'', ''ubuntu''), (''centos'', ''centos''), (''redhat'', ''cloud-user''),
                   (''fedora'', ''fedora''), (''coreos'', ''core''), (''debian'', ''debian'')] of
             Some (k, u) \<Rightarrow> u
           | None \<Rightarrow> ''root'')"
  by (simp add: GetSSHUsername_def defaultSSHUser_def Let_def)

theorem GetSSHUsername_witness:
  "GetSSHUsername demo_env demo_driver = ''ubuntu''
   \<and> GetSSHUsername demo_env (demo_driver\<lparr>Image := ''Linux RedHat 7.4 64-bit''\<rparr>) = ''cloud-user''
   \<and> GetSSHUsername demo_env (demo_driver\<lparr>Image := ''Linux CoreOS 2023 64-bit''\<rparr>) = ''core''
   \<and> GetSSHUsername demo_env (demo_driver\<lparr>Image := ''OpenBSD 6.4''\<rparr>) = ''root''
   \<and> GetSSHUsername demo_env (demo_driver\<lparr>SSHUser := ''admin''\<rparr>) = ''admin''
   \<and> GetSSHUsername (demo_env\<lparr>unicode_lower := (\<lambda>s. ''debian 10'')\<rparr>)
         (demo_driver\<lparr>Image := ''DEB'' @ [CHR 0xC4, CHR 0xB0] @ ''AN 10''\<rparr>) = ''debian''"
  using GetSSHUsername_cascade [of demo_env demo_driver]
    GetSSHUsername_cascade [of demo_env "demo_driver\<lparr>Image := ''Linux RedHat 7.4 64-bit''\<rparr>"]
    GetSSHUsername_cascade [of demo_env "demo_driver\<lparr>Image := ''Linux CoreOS 2023 64-bit''\<rparr>"]
    GetSSHUsername_cascade [of demo_env "demo_driver\<lparr>Image := ''OpenBSD 6.4''\<rparr>"]
    GetSSHUsername_cascade [of demo_env "demo_driver\<lparr>SSHUser := ''admin''\<rparr>"]
    GetSSHUsername_cascade [of "demo_env\<lparr>unicode_lower := (\<lambda>s. ''debian 10'')\<rparr>"
      "demo_driver\<lparr>Image := ''DEB'' @ [CHR 0xC4, CHR 0xB0] @ ''AN 10''\<rparr>"]
  by (simp add: demo_driver_def demo_env_def ToLower_def isASCII_def to_lower_char_def
      HasPrefix_def)

lemma virtualMachine_eq:
  "virtualMachine env s =
     (get_virtual_machine env (trace s) (ID (drv s)),
      s\<lparr>trace := trace s @ [GetVirtualMachine (ID (drv s))]\<rparr>)"
  by (simp add: virtualMachine_def prog_defs)

text \<open>
  C6. \<open>GetState\<close> fetches the machine by id and maps its state string by a fixed table:
  Stopping is Running; Destroyed, Expunging and Shutdowned are Stopped; Migrating is
  Paused; Error and Unknown are Error; a string that is not in the table gives the none
  state, with no error. Only a failed fetch returns an error.
\<close>

theorem GetState_table:
  "GetState env s =
     ((case get_virtual_machine env (trace s) (ID (drv s)) of
         Inl err \<Rightarrow> (Error, Some err)
       | Inr vm \<Rightarrow>
           (case map_of [(''Starting'', Starting), (''Running'', Running), (''Stopping'', Running),
                         (''Stopped'', Stopped), (''Destroyed'', Stopped), (''Expunging'', Stopped),
                         (''Migrating'', Paused), (''Error'', Error), (''Unknown'', Error),
                         (''Shutdowned'', Stopped)] (VirtualMachine_State vm) of
              Some st \<Rightarrow> st
            | None \<Rightarrow> state_None, None)),
      s\<lparr>trace := trace s @ [GetVirtualMachine (ID (drv s))]\<rparr>)"
  by (simp add: GetState_def virtualMachine_eq prog_defs Let_def split: sum.split)

theorem GetState_witness:
  "fst (GetState (demo_env\<lparr>get_virtual_machine :=
          (\<lambda>tr i. Inr (demo_vm\<lparr>VirtualMachine_State := ''Migrating''\<rparr>))\<rparr>)
        \<lparr>drv = demo_driver, trace = []\<rparr>) = (Paused, None)
   \<and> fst (GetState (demo_env\<lparr>get_virtual_machine :=
          (\<lambda>tr i. Inr (demo_vm\<lparr>VirtualMachine_State := ''Rebooting''\<rparr>))\<rparr>)
        \<lparr>drv = demo_driver, trace = []\<rparr>) = (state_None, None)"
  using GetState_table [of "demo_env\<lparr>get_virtual_machine :=
          (\<lambda>tr i. Inr (demo_vm\<lparr>VirtualMachine_State := ''Migrating''\<rparr>))\<rparr>" "\<lparr>drv = demo_driver, trace = []\<rparr>"]
   GetState_table [of "demo_env\<lparr>get_virtual_machine :=
          (\<lambda>tr i. Inr (demo_vm\<lparr>VirtualMachine_State := ''Rebooting''\<rparr>))\<rparr>" "\<lparr>drv = demo_driver, trace = []\<rparr>"]
  by (simp add: demo_env_def demo_vm_def)


subsection \<open>GetURL\<close>

lemma GetState_world:
  "snd (GetState env s) = s\<lparr>trace := trace s @ [GetVirtualMachine (ID (drv s))]\<rparr>"
  by (simp add: GetState_def virtualMachine_eq prog_defs Let_def split: sum.split)

lemmas GetState_eval = GetState_def virtualMachine_eq prog_defs Let_def

lemma MustBeRunning_eq:
  "MustBeRunning env s =
     ((case fst (GetState env s) of
         (st, Some e) \<Rightarrow> Some e
       | (st, None) \<Rightarrow> if st \<noteq> Running then Some ErrHostIsNotRunning else None),
      snd (GetState env s))"
  by (simp add: MustBeRunning_def prog_defs split: prod.split option.split)

lemma GetURL_eq:
  "GetURL env s =
     ((case fst (MustBeRunning env s) of
         Some e \<Rightarrow> ([], Some e)
       | None \<Rightarrow>
           (case GetIP env (drv s) of
              (ip, Some e) \<Rightarrow> ([], Some e)
            | (ip, None) \<Rightarrow> (''tcp://'' @ JoinHostPort ip ''2376'', None))),
      snd (MustBeRunning env s))"
proof (cases "MustBeRunning env s")
  case (Pair r s')
  then have "drv s' = drv s"
    using MustBeRunning_eq [of env s] by (auto simp: GetState_world)
  with Pair show ?thesis
    by (cases r; cases "GetIP env (drv s)") (auto simp: GetURL_def prog_defs split: option.split)
qed

text \<open>
  C9, as the claim states it: a running host with the IPv6 address 2001:db8::1 does not
  get \<open>tcp://2001:db8::1:2376\<close>. \<^verbatim>\<open>net.JoinHostPort\<close> puts the address in brackets.
\<close>

theorem GetURL_counterexample:
  "fst (GetURL demo_env \<lparr>drv = demo_driver\<lparr>IPAddress := ''2001:db8::1''\<rparr>, trace = []\<rparr>)
     = (''tcp://[2001:db8::1]:2376'', None)
   \<and> fst (GetURL demo_env \<lparr>drv = demo_driver\<lparr>IPAddress := ''2001:db8::1''\<rparr>, trace = []\<rparr>)
     \<noteq> (''tcp://'' @ ''2001:db8::1'' @ '':2376'', None)"
  by (simp add: GetURL_eq MustBeRunning_eq GetState_eval JoinHostPort_def demo_env_def
      demo_vm_def demo_driver_def)

text \<open>
  C9, amended. \<open>GetURL\<close> returns an error and the empty string unless the state query
  succeeds and reports Running. For a running host whose IP address is known it returns
  \<open>tcp://<ip>:2376\<close> when the address has no colon, and \<open>tcp://[<ip>]:2376\<close> when it has
  one (an IPv6 literal).
\<close>

theorem GetURL_running:
  "(fst (GetState env s) \<noteq> (Running, None) \<longrightarrow>
      fst (fst (GetURL env s)) = [] \<and> snd (fst (GetURL env s)) \<noteq> None)
   \<and> (fst (GetState env s) = (Running, None) \<and> GetIP env (drv s) = (ip, None) \<longrightarrow>
        fst (GetURL env s) =
          (if CHR '':'' \<in> set ip then ''tcp://['' @ ip @ '']:2376'' else ''tcp://'' @ ip @ '':2376'',
           None))"
  by (auto simp: GetURL_eq MustBeRunning_eq JoinHostPort_def split: prod.split option.split)

theorem GetURL_running_witness:
  "fst (GetURL demo_env \<lparr>drv = demo_driver\<lparr>IPAddress := ''203.0.113.7''\<rparr>, trace = []\<rparr>)
     = (''tcp://203.0.113.7:2376'', None)
   \<and> snd (fst (GetURL (demo_env\<lparr>get_virtual_machine :=
                 (\<lambda>tr i. Inr (demo_vm\<lparr>VirtualMachine_State := ''Stopped''\<rparr>))\<rparr>)
               \<lparr>drv = demo_driver\<lparr>IPAddress := ''203.0.113.7''\<rparr>, trace = []\<rparr>)) \<noteq> None"
proof -
  let ?s = "\<lparr>drv = demo_driver\<lparr>IPAddress := ''203.0.113.7''\<rparr>, trace = []\<rparr>"
  let ?env = "demo_env\<lparr>get_virtual_machine :=
                 (\<lambda>tr i. Inr (demo_vm\<lparr>VirtualMachine_State := ''Stopped''\<rparr>))\<rparr>"
  have run: "fst (GetState demo_env ?s) = (Running, None)"
    by (simp add: GetState_eval demo_env_def demo_vm_def)
  have ip: "GetIP demo_env (drv ?s) = (''203.0.113.7'', None)"
    by (simp add: demo_env_def demo_driver_def)
  have stopped: "fst (GetState ?env ?s) \<noteq> (Running, None)"
    by (simp add: GetState_eval demo_env_def demo_vm_def)
  show ?thesis
    using GetURL_running [of demo_env ?s "''203.0.113.7''"] GetURL_running [of ?env ?s "[]"]
      run ip stopped
    by simp
qed

subsection \<open>Remove\<close>

text \<open>
  C5. \<open>Remove\<close> deletes the key pair first, if a name is tracked, and then the machine,
  if it has an id. When the key pair deletion fails its error is returned and the trace
  ends there: the machine is not deleted. No other request is issued, so no security or
  affinity group is removed, and the driver record is left as it was.
\<close>

theorem Remove_teardown:
  "Remove env s =
     (let d = drv s;
          key_events = (if KeyPair d \<noteq> [] then [DeleteSSHKeyPair (KeyPair d)] else []);
          key_error = (if KeyPair d \<noteq> [] then delete_ssh_key_pair env (trace s) (KeyPair d)
                       else None)
      in case key_error of
           Some e \<Rightarrow> (Some e, s\<lparr>trace := trace s @ key_events\<rparr>)
         | None \<Rightarrow>
             (case ID d of
                None \<Rightarrow> (None, s\<lparr>trace := trace s @ key_events\<rparr>)
              | Some i \<Rightarrow>
                  (delete_virtual_machine env (trace s @ key_events) i,
                   s\<lparr>trace := trace s @ key_events @ [DeleteVirtualMachine i]\<rparr>)))"
  by (simp add: Remove_def prog_defs Let_def split: option.split)

theorem Remove_teardown_witness:
  "Remove (demo_env\<lparr>delete_ssh_key_pair := (\<lambda>tr name. Some (ClientFailure ''timeout''))\<rparr>)
      \<lparr>drv = demo_driver\<lparr>KeyPair := ''docker-machine-host1'', ID := Some ''vm-1''\<rparr>, trace = []\<rparr>
     = (Some (ClientFailure ''timeout''),
        \<lparr>drv = demo_driver\<lparr>KeyPair := ''docker-machine-host1'', ID := Some ''vm-1''\<rparr>,
         trace = [DeleteSSHKeyPair ''docker-machine-host1'']\<rparr>)
   \<and> Remove demo_env
      \<lparr>drv = demo_driver\<lparr>KeyPair := ''docker-machine-host1'', ID := Some ''vm-1''\<rparr>, trace = []\<rparr>
     = (None,
        \<lparr>drv = demo_driver\<lparr>KeyPair := ''docker-machine-host1'', ID := Some ''vm-1''\<rparr>,
         trace = [DeleteSSHKeyPair ''docker-machine-host1'', DeleteVirtualMachine ''vm-1'']\<rparr>)"
  using Remove_teardown [of "demo_env\<lparr>delete_ssh_key_pair := (\<lambda>tr name. Some (ClientFailure ''timeout''))\<rparr>"
      "\<lparr>drv = demo_driver\<lparr>KeyPair := ''docker-machine-host1'', ID := Some ''vm-1''\<rparr>, trace = []\<rparr>"]
    Remove_teardown [of demo_env
      "\<lparr>drv = demo_driver\<lparr>KeyPair := ''docker-machine-host1'', ID := Some ''vm-1''\<rparr>, trace = []\<rparr>"]
  by (simp add: demo_env_def demo_driver_def)

subsection \<open>Create, piece by piece\<close>

lemma getCloudInit_eq:
  "getCloudInit env s =
     (if UserDataFile (drv s) \<noteq> [] then
        (read_file env (trace s) (UserDataFile (drv s)),
         \<lparr>drv = (drv s)\<lparr>UserData := fst (read_file env (trace s) (UserDataFile (drv s)))\<rparr>,
          trace = trace s @ [ReadFile (UserDataFile (drv s))]\<rparr>)
      else ((UserData (drv s), None), s))"
  by (simp add: getCloudInit_def prog_defs split: prod.split)

lemma resolve_zone_eq:
  "resolve_zone env s =
     (case list_zones env (trace s) (AvailabilityZone (drv s)) of
        Inl err \<Rightarrow> Inl (Some err)
      | Inr zones \<Rightarrow>
          if length zones \<noteq> 1 then Inl (Some (ZoneDoesNotExist (AvailabilityZone (drv s))))
          else Inr (Zone_ID (zones ! 0)),
      s\<lparr>trace := trace s @ [ListZones (AvailabilityZone (drv s))]\<rparr>)"
  by (simp add: resolve_zone_def prog_defs split: sum.split)

lemma resolve_profile_eq:
  "resolve_profile env s =
     (case list_service_offerings env (trace s) (InstanceProfile (drv s)) of
        Inl err \<Rightarrow> Inl (Some err)
      | Inr profiles \<Rightarrow>
          if length profiles \<noteq> 1 then Inl (Some (UnableToFindProfile (InstanceProfile (drv s))))
          else Inr (ServiceOffering_ID (profiles ! 0)),
      s\<lparr>trace := trace s @ [ListServiceOfferings (InstanceProfile (drv s))]\<rparr>)"
  by (simp add: resolve_profile_def prog_defs split: sum.split)

lemma Create_unfold:
  "Create env s =
     (case getCloudInit env s of
        ((cloudInit, Some e), s1) \<Rightarrow> (Some e, s1)
      | ((cloudInit, None), s1) \<Rightarrow>
     (case resolve_zone env s1 of
        (Inl r, s2) \<Rightarrow> (r, s2)
      | (Inr zone, s2) \<Rightarrow>
     (case resolve_image env zone s2 of
        (Inl r, s3) \<Rightarrow> (r, s3)
      | (Inr template, s3) \<Rightarrow>
     (case resolve_profile env s3 of
        (Inl r, s4) \<Rightarrow> (r, s4)
      | (Inr profile, s4) \<Rightarrow>
     (case resolve_security_groups env (SecurityGroups (drv s4)) [] s4 of
        (Inl r, s5) \<Rightarrow> (r, s5)
      | (Inr sgs, s5) \<Rightarrow>
     (case resolve_affinity_groups env None (AffinityGroups (drv s5)) [] s5 of
        (Inl r, s6) \<Rightarrow> (r, s6)
      | (Inr ags, s6) \<Rightarrow>
     (case ssh_key_pair env cloudInit s6 of
        (Inl r, s7) \<Rightarrow> (r, s7)
      | (Inr cloudInit', s7) \<Rightarrow>
          run (deploy env cloudInit' template zone profile sgs ags) s7)))))))"
  by (simp add: Create_def run_def andThen_def call_def get_driver_def return_def
      split: prod.split option.split sum.split)


lemma size_10GiB:
  "signed_drop_bit 30 (w :: 64 word) = 10 \<longleftrightarrow> 10 * 2 ^ 30 \<le> sint w \<and> sint w < 11 * 2 ^ 30"
proof -
  have "signed_drop_bit 30 w = 10 \<longleftrightarrow> sint (signed_drop_bit 30 w) = sint (10 :: 64 word)"
    by (metis signed_word_eqI)
  also have "\<dots> \<longleftrightarrow> sint w div 2 ^ 30 = 10"
    by (simp add: sint_signed_drop_bit_eq drop_bit_eq_div)
  also have "\<dots> \<longleftrightarrow> 10 * 2 ^ 30 \<le> sint w \<and> sint w < 11 * 2 ^ 30"
    by auto
  finally show ?thesis .
qed

lemma resolve_image_eq:
  "resolve_image env zone s =
     (case list_templates env (trace s) True zone of
        Inl err \<Rightarrow> (Inl (Some err), s\<lparr>trace := trace s @ [ListTemplates True zone]\<rparr>)
      | Inr templates \<Rightarrow>
          (let template = select_template env (ToLower (unicode_lower env) (Image (drv s))) templates
                 \<lparr>Template_ID = None, Template_Name = [], Template_Size = 0,
                  Template_Details = Map.empty, Template_IsFeatured = True,
                  Template_ZoneID = zone\<rparr>
           in if Template_ID template = None
              then (Inl (Some (UnableToFindImage (Image (drv s)))),
                    s\<lparr>trace := trace s @ [ListTemplates True zone]\<rparr>)
              else (Inr template,
                    \<lparr>drv = (case Template_Details template ''username'' of
                              Some name \<Rightarrow> (drv s)\<lparr>SSHUser := name\<rparr>
                            | None \<Rightarrow> drv s),
                     trace = trace s @ [ListTemplates True zone]\<rparr>)))"
proof (cases "list_templates env (trace s) True zone")
  case (Inl err)
  then show ?thesis by (simp add: resolve_image_def prog_defs)
next
  case (Inr templates)
  define template where "template = select_template env (ToLower (unicode_lower env) (Image (drv s))) templates
                 \<lparr>Template_ID = None, Template_Name = [], Template_Size = 0,
                  Template_Details = Map.empty, Template_IsFeatured = True,
                  Template_ZoneID = zone\<rparr>"
  show ?thesis
  proof (cases "Template_ID template")
    case None
    with Inr show ?thesis
      unfolding resolve_image_def prog_defs Let_def template_def by simp
  next
    case (Some u)
    with Inr show ?thesis
      unfolding resolve_image_def prog_defs Let_def template_def
      by (cases "Template_Details template ''username''") (simp_all add: template_def)
  qed
qed

subsection \<open>Create: zone and profile\<close>

text \<open>
  C3, as the claim states it: when the provider answers with two zones of the configured
  name, \<open>Create\<close> fails with the error it gives when the provider answers with none,
  \<open>Availability zone CH-DK-2 doesn't exist\<close>. The source has no error for an ambiguous
  answer.
\<close>

theorem lookup_counterexample:
  "fst (Create (demo_env\<lparr>list_zones := (\<lambda>tr name.
            Inr [\<lparr>Zone_ID = Some ''zone-1'', Zone_Name = name\<rparr>,
                 \<lparr>Zone_ID = Some ''zone-2'', Zone_Name = name\<rparr>])\<rparr>)
          \<lparr>drv = demo_driver, trace = []\<rparr>) = Some (ZoneDoesNotExist ''CH-DK-2'')
   \<and> fst (Create (demo_env\<lparr>list_zones := (\<lambda>tr name. Inr [])\<rparr>)
          \<lparr>drv = demo_driver, trace = []\<rparr>) = Some (ZoneDoesNotExist ''CH-DK-2'')"
  by (simp add: Create_unfold getCloudInit_eq resolve_zone_eq demo_env_def demo_driver_def)

text \<open>
  C3, amended. The zone lookup and the profile lookup succeed exactly when the provider's
  list has one element, and then take its ID. For any other length, none or several, they
  fail with one and the same error, \<open>Availability zone <name> doesn't exist\<close> for the
  zone and \<open>Unable to find the <name> profile\<close> for the profile; \<open>Create\<close> returns this
  error and issues no further request. No element of a longer list is ever picked.
\<close>

theorem lookup_exactly_one:
  "(list_zones env (trace s) (AvailabilityZone (drv s)) = Inr zones \<longrightarrow>
      fst (resolve_zone env s) =
        (case zones of
           [z] \<Rightarrow> Inr (Zone_ID z)
         | _ \<Rightarrow> Inl (Some (ZoneDoesNotExist (AvailabilityZone (drv s))))))
   \<and> (list_service_offerings env (trace s) (InstanceProfile (drv s)) = Inr profiles \<longrightarrow>
      fst (resolve_profile env s) =
        (case profiles of
           [p] \<Rightarrow> Inr (ServiceOffering_ID p)
         | _ \<Rightarrow> Inl (Some (UnableToFindProfile (InstanceProfile (drv s))))))
   \<and> (getCloudInit env s = ((cloudInit, None), s1)
        \<and> list_zones env (trace s1) (AvailabilityZone (drv s1)) = Inr zones
        \<and> length zones \<noteq> 1 \<longrightarrow>
      Create env s = (Some (ZoneDoesNotExist (AvailabilityZone (drv s1))),
                      s1\<lparr>trace := trace s1 @ [ListZones (AvailabilityZone (drv s1))]\<rparr>))
   \<and> (getCloudInit env s = ((cloudInit, None), s1)
        \<and> resolve_zone env s1 = (Inr zone, s2)
        \<and> resolve_image env zone s2 = (Inr template, s3)
        \<and> list_service_offerings env (trace s3) (InstanceProfile (drv s3)) = Inr profiles
        \<and> length profiles \<noteq> 1 \<longrightarrow>
      Create env s = (Some (UnableToFindProfile (InstanceProfile (drv s3))),
                      s3\<lparr>trace := trace s3 @ [ListServiceOfferings (InstanceProfile (drv s3))]\<rparr>))"
proof (intro conjI impI)
  assume "list_zones env (trace s) (AvailabilityZone (drv s)) = Inr zones"
  then show "fst (resolve_zone env s) =
        (case zones of
           [z] \<Rightarrow> Inr (Zone_ID z)
         | _ \<Rightarrow> Inl (Some (ZoneDoesNotExist (AvailabilityZone (drv s)))))"
    by (cases zones; cases "tl zones") (auto simp: resolve_zone_eq)
next
  assume "list_service_offerings env (trace s) (InstanceProfile (drv s)) = Inr profiles"
  then show "fst (resolve_profile env s) =
        (case profiles of
           [p] \<Rightarrow> Inr (ServiceOffering_ID p)
         | _ \<Rightarrow> Inl (Some (UnableToFindProfile (InstanceProfile (drv s)))))"
    by (cases profiles; cases "tl profiles") (auto simp: resolve_profile_eq)
next
  assume "getCloudInit env s = ((cloudInit, None), s1)
        \<and> list_zones env (trace s1) (AvailabilityZone (drv s1)) = Inr zones
        \<and> length zones \<noteq> 1"
  then show "Create env s = (Some (ZoneDoesNotExist (AvailabilityZone (drv s1))),
                      s1\<lparr>trace := trace s1 @ [ListZones (AvailabilityZone (drv s1))]\<rparr>)"
    by (simp add: Create_unfold resolve_zone_eq)
next
  assume "getCloudInit env s = ((cloudInit, None), s1)
        \<and> resolve_zone env s1 = (Inr zone, s2)
        \<and> resolve_image env zone s2 = (Inr template, s3)
        \<and> list_service_offerings env (trace s3) (InstanceProfile (drv s3)) = Inr profiles
        \<and> length profiles \<noteq> 1"
  then show "Create env s = (Some (UnableToFindProfile (InstanceProfile (drv s3))),
                      s3\<lparr>trace := trace s3 @ [ListServiceOfferings (InstanceProfile (drv s3))]\<rparr>)"
    by (simp add: Create_unfold resolve_profile_eq)
qed


theorem lookup_exactly_one_witness:
  "fst (resolve_zone demo_env \<lparr>drv = demo_driver, trace = []\<rparr>) = Inr (Some ''zone-1'')
   \<and> fst (resolve_profile demo_env \<lparr>drv = demo_driver, trace = []\<rparr>) = Inr (Some ''so-1'')
   \<and> Create (demo_env\<lparr>list_zones := (\<lambda>tr name. Inr [])\<rparr>) \<lparr>drv = demo_driver, trace = []\<rparr>
     = (Some (ZoneDoesNotExist ''CH-DK-2''), \<lparr>drv = demo_driver, trace = [ListZones ''CH-DK-2'']\<rparr>)
   \<and> Create (demo_env\<lparr>list_service_offerings := (\<lambda>tr name.
                Inr [\<lparr>ServiceOffering_ID = Some ''so-1'', ServiceOffering_Name = name\<rparr>,
                     \<lparr>ServiceOffering_ID = Some ''so-2'', ServiceOffering_Name = name\<rparr>])\<rparr>)
        \<lparr>drv = demo_driver, trace = []\<rparr>
     = (Some (UnableToFindProfile ''Small''),
        \<lparr>drv = demo_driver,
         trace = [ListZones ''CH-DK-2'', ListTemplates True (Some ''zone-1''),
                  ListServiceOfferings ''Small'']\<rparr>)"
proof -
  let ?s0 = "\<lparr>drv = demo_driver, trace = []\<rparr>"
  let ?s2 = "\<lparr>drv = demo_driver, trace = [ListZones ''CH-DK-2'']\<rparr>"
  let ?s3 = "\<lparr>drv = demo_driver, trace = [ListZones ''CH-DK-2'', ListTemplates True (Some ''zone-1'')]\<rparr>"
  let ?tpl = "demo_template\<lparr>Template_ZoneID := Some ''zone-1''\<rparr>"
  let ?nozone = "demo_env\<lparr>list_zones := (\<lambda>tr name. Inr [])\<rparr>"
  let ?two = "demo_env\<lparr>list_service_offerings := (\<lambda>tr name.
                Inr [\<lparr>ServiceOffering_ID = Some ''so-1'', ServiceOffering_Name = name\<rparr>,
                     \<lparr>ServiceOffering_ID = Some ''so-2'', ServiceOffering_Name = name\<rparr>])\<rparr>"
  have one: "fst (resolve_zone demo_env ?s0) = Inr (Some ''zone-1'')
      \<and> fst (resolve_profile demo_env ?s0) = Inr (Some ''so-1'')"
    using lookup_exactly_one [where env = demo_env and s = ?s0
        and zones = "[\<lparr>Zone_ID = Some ''zone-1'', Zone_Name = ''CH-DK-2''\<rparr>]"
        and profiles = "[\<lparr>ServiceOffering_ID = Some ''so-1'', ServiceOffering_Name = ''Small''\<rparr>]"]
    by (simp add: demo_env_def demo_driver_def)
  have ci: "getCloudInit env \<lparr>drv = demo_driver, trace = []\<rparr>
      = ((''#cloud-config'', None), \<lparr>drv = demo_driver, trace = []\<rparr>)" for env
    by (simp add: getCloudInit_eq demo_driver_def)
  have nozone: "Create ?nozone ?s0 = (Some (ZoneDoesNotExist ''CH-DK-2''), ?s2)"
    using lookup_exactly_one [where env = ?nozone and s = ?s0 and cloudInit = "''#cloud-config''"
        and ?s1.0 = ?s0 and zones = "[]"] ci [of ?nozone]
    by (simp add: demo_env_def demo_driver_def)
  have zone: "resolve_zone ?two ?s0 = (Inr (Some ''zone-1''), ?s2)"
    by (simp add: resolve_zone_eq demo_driver_def demo_env_def)
  have img: "resolve_image ?two (Some ''zone-1'') ?s2 = (Inr ?tpl, ?s3)"
    by (simp add: resolve_image_eq demo_driver_def demo_env_def demo_template_def size_10GiB
        ToLower_def isASCII_def to_lower_char_def)
  have lso: "list_service_offerings ?two (trace ?s3) (InstanceProfile (drv ?s3))
      = Inr [\<lparr>ServiceOffering_ID = Some ''so-1'', ServiceOffering_Name = ''Small''\<rparr>,
             \<lparr>ServiceOffering_ID = Some ''so-2'', ServiceOffering_Name = ''Small''\<rparr>]"
    by (simp add: demo_env_def demo_driver_def)
  have prof: "InstanceProfile demo_driver = ''Small''"
    by (simp add: demo_driver_def)
  have two: "Create ?two ?s0 = (Some (UnableToFindProfile ''Small''),
        \<lparr>drv = demo_driver,
         trace = [ListZones ''CH-DK-2'', ListTemplates True (Some ''zone-1''),
                  ListServiceOfferings ''Small'']\<rparr>)"
    using lookup_exactly_one [where env = ?two and s = ?s0 and cloudInit = "''#cloud-config''"
        and ?s1.0 = ?s0 and zone = "Some ''zone-1''" and ?s2.0 = ?s2 and template = ?tpl
        and ?s3.0 = ?s3
        and profiles = "[\<lparr>ServiceOffering_ID = Some ''so-1'', ServiceOffering_Name = ''Small''\<rparr>,
                     \<lparr>ServiceOffering_ID = Some ''so-2'', ServiceOffering_Name = ''Small''\<rparr>]"]
      ci [of ?two] zone img lso prof
    by simp
  from one nozone two show ?thesis by simp
qed

subsection \<open>Create: image resolution\<close>
















end
